theory Spec2Isabelle
  imports Complex_Main "HOL-Library.Word"
begin

section \<open>Strings, trimming and the date pattern\<close>

text \<open>
  A JavaScript string is a sequence of 16-bit code units. Literals of the scripts are
  written with \<open>js\<close>, which maps each ASCII character to its code unit; the two
  non-ASCII characters of the scripts' messages are given by their code units.
\<close>

type_synonym jsstring = "16 word list"

definition js :: "string \<Rightarrow> jsstring" where
  "js s = map (\<lambda>c. of_char c) s"

definition ellipsis :: jsstring where
  "ellipsis = [0x2026]"

definition hyphen :: "16 word" where
  "hyphen = 0x2D"

text \<open>
  \<open>String.prototype.trim\<close> removes the code units of WhiteSpace and LineTerminator
  from both ends of the string.
\<close>

definition is_ws :: "16 word \<Rightarrow> bool" where
  "is_ws u = (u \<in> {0x09, 0x0A, 0x0B, 0x0C, 0x0D, 0x20, 0xA0, 0x1680, 0x2028, 0x2029,
                   0x202F, 0x205F, 0x3000, 0xFEFF} \<or> (0x2000 \<le> u \<and> u \<le> 0x200A))"

definition trim :: "jsstring \<Rightarrow> jsstring" where
  "trim s = rev (dropWhile is_ws (rev (dropWhile is_ws s)))"

text \<open>
  \<open>encodeURIComponent\<close> throws a URIError when its argument is not well formed, that
  is, when it has a surrogate code unit outside a pair of a high and a low one.
\<close>

definition is_high :: "16 word \<Rightarrow> bool" where
  "is_high u = (0xD800 \<le> u \<and> u \<le> 0xDBFF)"

definition is_low :: "16 word \<Rightarrow> bool" where
  "is_low u = (0xDC00 \<le> u \<and> u \<le> 0xDFFF)"

fun well_formed :: "jsstring \<Rightarrow> bool" where
  "well_formed [] = True"
| "well_formed [u] = (\<not> is_high u \<and> \<not> is_low u)"
| "well_formed (u # v # vs) =
     (if is_high u then is_low v \<and> well_formed vs else \<not> is_low u \<and> well_formed (v # vs))"

text \<open>
  The regular expression of \<open>validate\<close> is \<^verbatim>\<open>/^\d{4}-\d{2}-\d{2}$/\<close>: a sequence of
  one-character atoms between the anchors, so \<open>test\<close> succeeds exactly when the string has
  one code unit per atom and each code unit matches its atom. \<^verbatim>\<open>\d\<close> is \<^verbatim>\<open>[0-9]\<close>.
\<close>

datatype atom = Digit | Lit "16 word"

definition is_digit :: "16 word \<Rightarrow> bool" where
  "is_digit u = (0x30 \<le> u \<and> u \<le> 0x39)"

fun atom_matches :: "atom \<Rightarrow> 16 word \<Rightarrow> bool" where
  "atom_matches Digit u = is_digit u"
| "atom_matches (Lit c) u = (u = c)"

definition regex_test :: "atom list \<Rightarrow> jsstring \<Rightarrow> bool" where
  "regex_test re s = list_all2 atom_matches re s"

definition date_re :: "atom list" where
  "date_re = replicate 4 Digit @ [Lit hyphen] @ replicate 2 Digit @ [Lit hyphen] @ replicate 2 Digit"

section \<open>The main page script (cascading selects, validation, prediction)\<close>

subsection \<open>Page state\<close>

text \<open>
  A \<open>select\<close> element: its \<open>disabled\<close> flag, its options as (value, text) pairs and the
  value it currently shows. Assigning \<open>innerHTML\<close> replaces the options and selects the
  first of them.
\<close>

record select =
  disabled :: bool
  options :: "(jsstring \<times> jsstring) list"
  val :: jsstring

datatype cell = Null | Undefined | Num real

record chart =
  labels :: "jsstring list"
  recent :: "real list"
  predicted :: "cell list"

text \<open>
  The elements the script reads and writes. \<open>toaster\<close> is the sequence of notifications
  shown so far (text, error flag); the timer that removes a toast from view after 3.5 s
  is not part of the state. The result box holds the price of the sentence it shows,
  the pills hold the values they show (\<open>None\<close> is the dash), and \<open>chart\<close> is \<open>None\<close>
  until \<open>setupChart\<close> has run.
\<close>

record page =
  commodity :: select
  stateSel :: select
  marketSel :: select
  dateInp :: jsstring
  predictBtn_disabled :: bool
  resBox_hide :: bool
  resBox_text :: "real option"
  winPill :: "real option"
  usedPill :: "real option"
  padPill :: "bool option"
  toaster :: "(jsstring \<times> bool) list"
  chartNote :: jsstring
  chart :: "chart option"

record query =
  q_commodity :: jsstring
  q_state :: jsstring
  q_market :: jsstring
  q_date :: "jsstring option"

definition toast :: "jsstring \<Rightarrow> bool \<Rightarrow> page \<Rightarrow> page" where
  "toast msg bad p = p\<lparr>toaster := toaster p @ [(msg, bad)]\<rparr>"

definition setDisabled :: "select \<Rightarrow> bool \<Rightarrow> jsstring option \<Rightarrow> select" where
  "setDisabled sel d placeholder =
     (case placeholder of
        None \<Rightarrow> sel\<lparr>disabled := d\<rparr>
      | Some ph \<Rightarrow> sel\<lparr>disabled := d, options := [([], ph)], val := []\<rparr>)"

text \<open>
  \<open>fillSelect\<close> writes each item between \<^verbatim>\<open><option>\<close> and \<^verbatim>\<open></option>\<close> and assigns the
  concatenation, after the first option, to \<open>innerHTML\<close>. What options the items become
  is decided by the HTML parser of the host, which reads an item as markup: it is the
  parameter \<open>parse\<close>, from the items to the (value, text) pairs of the options they
  become. Without items nothing is written after the first option. \<open>plain_options\<close>
  is what the parser gives when every item is a plain name (no markup characters, no
  white space at its ends or repeated inside): one option per item, with the item as
  value and as text.
\<close>

definition fillSelect ::
  "(jsstring list \<Rightarrow> (jsstring \<times> jsstring) list) \<Rightarrow> select \<Rightarrow> jsstring list \<Rightarrow> jsstring \<Rightarrow> select" where
  "fillSelect parse sel its firstText =
     sel\<lparr>options := ([], firstText) # (if its = [] then [] else parse its),
         val := [],
         disabled := (length its = 0)\<rparr>"

definition plain_options :: "jsstring list \<Rightarrow> (jsstring \<times> jsstring) list" where
  "plain_options its = map (\<lambda>v. (v, v)) its"

subsection \<open>validate\<close>

definition validate :: "page \<Rightarrow> page \<times> query option" where
  "validate p =
     (let c = trim (val (commodity p));
          s = trim (val (stateSel p));
          m = trim (val (marketSel p));
          d = trim (dateInp p)
      in if c = [] then (toast (js ''Select a commodity.'') True p, None)
         else if s = [] then (toast (js ''Select a state.'') True p, None)
         else if m = [] then (toast (js ''Select a market.'') True p, None)
         else if d \<noteq> [] \<and> \<not> regex_test date_re d
           then (toast (js ''Invalid date format. Use YYYY-MM-DD.'') True p, None)
         else (p, Some \<lparr>q_commodity = c, q_state = s, q_market = m,
                        q_date = (if d = [] then None else Some d)\<rparr>))"

subsection \<open>The validator's contract\<close>

text \<open>
  The contract in the words of the specification: four requirements in a fixed order,
  the first unmet one is reported; the date requirement reads "four digits, hyphen, two
  digits, hyphen, two digits" and applies only to a date that is present.
\<close>

definition yyyy_mm_dd :: "jsstring \<Rightarrow> bool" where
  "yyyy_mm_dd d = (length d = 10 \<and> list_all is_digit (take 4 d) \<and> d ! 4 = hyphen \<and>
      list_all is_digit (take 2 (drop 5 d)) \<and> d ! 7 = hyphen \<and> list_all is_digit (drop 8 d))"

datatype requirement = CommodityRequired | StateRequired | MarketRequired | DatePattern

text \<open>
  The normal form of an input is what lies between its leading and its trailing white
  space; an input of white space only has the empty normal form.
\<close>

definition leading :: "jsstring \<Rightarrow> nat" where
  "leading s = length (takeWhile is_ws s)"

definition trailing :: "jsstring \<Rightarrow> nat" where
  "trailing s = length (takeWhile is_ws (rev s))"

definition stripped :: "jsstring \<Rightarrow> jsstring" where
  "stripped s = (if list_all is_ws s then []
                 else take (length s - leading s - trailing s) (drop (leading s) s))"

fun unmet :: "page \<Rightarrow> requirement \<Rightarrow> bool" where
  "unmet p CommodityRequired = (stripped (val (commodity p)) = [])"
| "unmet p StateRequired = (stripped (val (stateSel p)) = [])"
| "unmet p MarketRequired = (stripped (val (marketSel p)) = [])"
| "unmet p DatePattern = (stripped (dateInp p) \<noteq> [] \<and> \<not> yyyy_mm_dd (stripped (dateInp p)))"

fun message :: "requirement \<Rightarrow> jsstring" where
  "message CommodityRequired = js ''Select a commodity.''"
| "message StateRequired = js ''Select a state.''"
| "message MarketRequired = js ''Select a market.''"
| "message DatePattern = js ''Invalid date format. Use YYYY-MM-DD.''"

definition first_unmet :: "page \<Rightarrow> requirement option" where
  "first_unmet p = find (unmet p) [CommodityRequired, StateRequired, MarketRequired, DatePattern]"

definition normalized :: "page \<Rightarrow> query" where
  "normalized p = \<lparr>q_commodity = trim (val (commodity p)), q_state = trim (val (stateSel p)),
     q_market = trim (val (marketSel p)),
     q_date = (if trim (dateInp p) = [] then None else Some (trim (dateInp p)))\<rparr>"

text \<open>The query the specification asks for: the normal forms, the date only if present.\<close>

definition requested :: "page \<Rightarrow> query" where
  "requested p = \<lparr>q_commodity = stripped (val (commodity p)), q_state = stripped (val (stateSel p)),
     q_market = stripped (val (marketSel p)),
     q_date = (if stripped (dateInp p) = [] then None else Some (stripped (dateInp p)))\<rparr>"

definition complete :: "query \<Rightarrow> bool" where
  "complete q = (q_commodity q \<noteq> [] \<and> q_state q \<noteq> [] \<and> q_market q \<noteq> [])"

subsection \<open>Responses of the backend\<close>

text \<open>
  A request either fails (the fetch rejects, the status is not a success, or the body
  cannot be read; the text is the message of the error thrown) or yields a JSON object.
  The object is read by field name, and a field may be missing. \<open>padded\<close> is read for
  its truthiness only.
\<close>

datatype 'a response = Failed jsstring | Ok 'a

record json =
  states :: "jsstring list option"
  markets :: "jsstring list option"
  dates :: "jsstring list option"
  prices :: "real list option"
  predicted_next_price :: "real option"
  window_size :: "real option"
  used_points :: "real option"
  padded :: bool

definition or_empty :: "'a list option \<Rightarrow> 'a list" where
  "or_empty xs = (case xs of None \<Rightarrow> [] | Some ys \<Rightarrow> ys)"

definition cell_of :: "real option \<Rightarrow> cell" where
  "cell_of v = (case v of None \<Rightarrow> Undefined | Some x \<Rightarrow> Num x)"

subsection \<open>Cascading selects\<close>

text \<open>
  An asynchronous handler runs up to its first \<open>await\<close> when its event fires, and the
  rest of it runs when the awaited request settles. Each handler is therefore a pair of
  functions: the first returns the page and the request it has issued (if any), the
  second takes the response. A request in flight is recorded with the values its
  continuation has captured. The two awaits of \<open>apiGet\<close> (response, then body) are one
  settlement: the handler touches nothing between them. The address of the request is
  built inside the \<open>try\<close> block with \<open>encodeURIComponent\<close>: when the selected value is
  not well formed the URIError is caught at once, the \<open>catch\<close> block runs and no
  request is issued.
\<close>

datatype pending =
    StatesFetch jsstring
  | MarketsFetch jsstring jsstring
  | PredictPost query
  | SeriesFetch query json

definition states_catch :: "page \<Rightarrow> page" where
  "states_catch p =
     toast (js ''Could not load states for this commodity.'') True
       (p\<lparr>stateSel := setDisabled (stateSel p) True (Some (js ''States unavailable''))\<rparr>)"

definition commodity_change :: "page \<Rightarrow> page \<times> pending option" where
  "commodity_change p =
     (let c = trim (val (commodity p));
          p1 = p\<lparr>marketSel := setDisabled (marketSel p) True (Some (js ''Select state first'' @ ellipsis))\<rparr>
      in if c = []
         then (p1\<lparr>stateSel := setDisabled (stateSel p1) True (Some (js ''Select commodity first'' @ ellipsis))\<rparr>,
               None)
         else (let p2 = p1\<lparr>stateSel := setDisabled (stateSel p1) True (Some (js ''Loading states'' @ ellipsis))\<rparr>
               in if well_formed c then (p2, Some (StatesFetch c))
                  else (states_catch p2, None)))"

definition states_settled ::
  "(jsstring list \<Rightarrow> (jsstring \<times> jsstring) list) \<Rightarrow> json response \<Rightarrow> page \<Rightarrow> page" where
  "states_settled parse r p =
     (case r of
        Ok res \<Rightarrow> p\<lparr>stateSel := fillSelect parse (stateSel p) (or_empty (states res))
                                  (js ''Select a state'' @ ellipsis)\<rparr>
      | Failed e \<Rightarrow> states_catch p)"

definition markets_catch :: "page \<Rightarrow> page" where
  "markets_catch p =
     toast (js ''Could not load markets for that state.'') True
       (p\<lparr>marketSel := setDisabled (marketSel p) True (Some (js ''Markets unavailable''))\<rparr>)"

definition state_change :: "page \<Rightarrow> page \<times> pending option" where
  "state_change p =
     (let c = trim (val (commodity p));
          s = trim (val (stateSel p));
          p1 = p\<lparr>marketSel := setDisabled (marketSel p) True (Some (js ''Loading markets'' @ ellipsis))\<rparr>
      in if c = [] \<or> s = []
         then (p1\<lparr>marketSel := setDisabled (marketSel p1) True (Some (js ''Select state first'' @ ellipsis))\<rparr>,
               None)
         else if well_formed c \<and> well_formed s then (p1, Some (MarketsFetch c s))
         else (markets_catch p1, None))"

definition markets_settled ::
  "(jsstring list \<Rightarrow> (jsstring \<times> jsstring) list) \<Rightarrow> json response \<Rightarrow> page \<Rightarrow> page" where
  "markets_settled parse r p =
     (case r of
        Ok res \<Rightarrow> p\<lparr>marketSel := fillSelect parse (marketSel p) (or_empty (markets res))
                                   (js ''Select a market'' @ ellipsis)\<rparr>
      | Failed e \<Rightarrow> markets_catch p)"

subsection \<open>Prediction and chart\<close>

definition empty_chart :: chart where
  "empty_chart = \<lparr>labels = [], recent = [], predicted = []\<rparr>"

definition resetChart :: "page \<Rightarrow> page" where
  "resetChart p = (case chart p of None \<Rightarrow> p | Some ch \<Rightarrow> p\<lparr>chart := Some empty_chart\<rparr>)"

definition blank_pills :: "page \<Rightarrow> page" where
  "blank_pills p = p\<lparr>winPill := None, usedPill := None, padPill := None\<rparr>"

definition predictBtn_click :: "page \<Rightarrow> page \<times> pending option" where
  "predictBtn_click p =
     (case validate p of
        (p1, None) \<Rightarrow> (p1, None)
      | (p1, Some q) \<Rightarrow>
          (resetChart ((blank_pills (p1\<lparr>predictBtn_disabled := True, resBox_hide := True,
                                         resBox_text := None\<rparr>))\<lparr>chartNote := []\<rparr>),
           Some (PredictPost q)))"

text \<open>The \<open>catch\<close> and \<open>finally\<close> blocks of the click handler.\<close>

definition predict_catch :: "jsstring \<Rightarrow> page \<Rightarrow> page" where
  "predict_catch msg p = (toast (js ''Prediction failed: '' @ msg) True p)\<lparr>chartNote := js ''Chart not updated.''\<rparr>"

definition predict_finally :: "page \<Rightarrow> page" where
  "predict_finally p = p\<lparr>predictBtn_disabled := False\<rparr>"

definition predict_settled :: "query \<Rightarrow> json response \<Rightarrow> page \<Rightarrow> page \<times> pending option" where
  "predict_settled q r p =
     (case r of
        Failed msg \<Rightarrow> (predict_finally (predict_catch msg p), None)
      | Ok resp \<Rightarrow>
          (p\<lparr>winPill := window_size resp, usedPill := used_points resp,
             padPill := Some (padded resp),
             resBox_text := Some (case predicted_next_price resp of None \<Rightarrow> 0 | Some v \<Rightarrow> v),
             resBox_hide := False\<rparr>,
           Some (SeriesFetch q resp)))"

text \<open>
  \<open>drawSeries\<close>. Its \<open>try\<close> block throws when the history request fails, when the body
  lacks \<open>dates\<close> or \<open>prices\<close>, when the chart has not been set up, and when \<open>prices\<close>
  is empty (\<open>new Array(-1)\<close> is a RangeError, raised after the labels and the first
  series have been assigned). \<open>Inl\<close> carries the page as it is when the exception is
  thrown. The local array \<open>data\<close> of the source is built and never read. \<open>today\<close> is
  the first ten characters of the current time in ISO format.
\<close>

definition date_or_today :: "jsstring \<Rightarrow> query \<Rightarrow> jsstring" where
  "date_or_today today q = (case q_date q of None \<Rightarrow> today | Some d \<Rightarrow> if d = [] then today else d)"

definition drawSeries_try :: "jsstring \<Rightarrow> query \<Rightarrow> json \<Rightarrow> json response \<Rightarrow> page \<Rightarrow> page + page" where
  "drawSeries_try today q resp r p =
     (case r of
        Failed e \<Rightarrow> Inl p
      | Ok hist \<Rightarrow>
          (case dates hist of
             None \<Rightarrow> Inl p
           | Some ds \<Rightarrow>
               (case prices hist of
                  None \<Rightarrow> Inl p
                | Some ps \<Rightarrow>
                    (case chart p of
                       None \<Rightarrow> Inl p
                     | Some ch \<Rightarrow>
                         (let ch1 = ch\<lparr>labels := ds @ [date_or_today today q], recent := ps\<rparr>
                          in if length ps = 0 then Inl (p\<lparr>chart := Some ch1\<rparr>)
                             else Inr (p\<lparr>chart := Some (ch1\<lparr>predicted :=
                                            replicate (length ps - 1) Null @
                                            [cell_of (predicted_next_price resp)]\<rparr>),
                                         chartNote := []\<rparr>))))))"

text \<open>
  The \<open>catch\<close> block of \<open>drawSeries\<close> writes to the chart as well, so without a chart
  it throws in turn; the message of that TypeError is the engine's.
\<close>

definition undefined_chart :: jsstring where
  "undefined_chart = js ''Cannot read properties of undefined''"

definition drawSeries_catch :: "jsstring \<Rightarrow> query \<Rightarrow> json \<Rightarrow> page \<Rightarrow> jsstring option \<times> page" where
  "drawSeries_catch today q resp p =
     (case chart p of
        None \<Rightarrow> (Some undefined_chart, p)
      | Some ch \<Rightarrow>
          (None, p\<lparr>chart := Some (ch\<lparr>labels := [date_or_today today q], recent := [],
                                     predicted := [cell_of (predicted_next_price resp)]\<rparr>),
                    chartNote := js ''History endpoint not available; showing predicted point only.''\<rparr>))"

definition drawSeries :: "jsstring \<Rightarrow> query \<Rightarrow> json \<Rightarrow> json response \<Rightarrow> page \<Rightarrow> jsstring option \<times> page" where
  "drawSeries today q resp r p =
     (case drawSeries_try today q resp r p of
        Inr p1 \<Rightarrow> (None, p1)
      | Inl p1 \<Rightarrow> drawSeries_catch today q resp p1)"

text \<open>The rest of the click handler, once \<open>drawSeries\<close> has returned or thrown.\<close>

definition series_settled :: "jsstring \<Rightarrow> query \<Rightarrow> json \<Rightarrow> json response \<Rightarrow> page \<Rightarrow> page" where
  "series_settled today q resp r p =
     (case drawSeries today q resp r p of
        (None, p1) \<Rightarrow> predict_finally p1
      | (Some msg, p1) \<Rightarrow> predict_finally (predict_catch msg p1))"

definition clearBtn_click :: "page \<Rightarrow> page" where
  "clearBtn_click p =
     resetChart ((blank_pills
       (p\<lparr>commodity := (commodity p)\<lparr>val := []\<rparr>,
          stateSel := setDisabled (stateSel p) True (Some (js ''Select commodity first'' @ ellipsis)),
          marketSel := setDisabled (marketSel p) True (Some (js ''Select state first'' @ ellipsis)),
          resBox_hide := True\<rparr>))\<lparr>chartNote := []\<rparr>)"

subsection \<open>The page as an event-driven system\<close>

text \<open>
  The script runs on one thread: an event handler, or the continuation of a settled
  request, runs to its next \<open>await\<close> without interruption. The state of the system is the
  page, the requests in flight, the current date and the HTML parser of the host (as
  \<open>fillSelect\<close> uses it); an event is a user action, the settlement of the \<open>k\<close>-th
  request in flight with a response, or a change of date.
  The user can change a select only when it is enabled, and only to one of its options;
  a click on a disabled button fires no event.
\<close>

record world =
  ui :: page
  inflight :: "pending list"
  clock :: jsstring
  html_options :: "jsstring list \<Rightarrow> (jsstring \<times> jsstring) list"

datatype event =
    ChangeCommodity jsstring
  | ChangeState jsstring
  | ChangeMarket jsstring
  | TypeDate jsstring
  | ClickPredict
  | ClickClear
  | Settle nat "json response"
  | Tick jsstring

definition selectable :: "jsstring \<Rightarrow> select \<Rightarrow> bool" where
  "selectable v sel = (\<not> disabled sel \<and> v \<in> set (map fst (options sel)))"

definition remove_nth :: "nat \<Rightarrow> 'a list \<Rightarrow> 'a list" where
  "remove_nth k xs = take k xs @ drop (Suc k) xs"

definition issue :: "world \<Rightarrow> page \<times> pending option \<Rightarrow> world" where
  "issue w r = w\<lparr>ui := fst r,
                 inflight := inflight w @ (case snd r of None \<Rightarrow> [] | Some x \<Rightarrow> [x])\<rparr>"

fun settle :: "json response \<Rightarrow> pending \<Rightarrow> world \<Rightarrow> world" where
  "settle r (StatesFetch c) w = w\<lparr>ui := states_settled (html_options w) r (ui w)\<rparr>"
| "settle r (MarketsFetch c s) w = w\<lparr>ui := markets_settled (html_options w) r (ui w)\<rparr>"
| "settle r (PredictPost q) w = issue w (predict_settled q r (ui w))"
| "settle r (SeriesFetch q resp) w = w\<lparr>ui := series_settled (clock w) q resp r (ui w)\<rparr>"

fun step :: "event \<Rightarrow> world \<Rightarrow> world" where
  "step (ChangeCommodity v) w =
     (if selectable v (commodity (ui w))
      then issue w (commodity_change ((ui w)\<lparr>commodity := (commodity (ui w))\<lparr>val := v\<rparr>\<rparr>))
      else w)"
| "step (ChangeState v) w =
     (if selectable v (stateSel (ui w))
      then issue w (state_change ((ui w)\<lparr>stateSel := (stateSel (ui w))\<lparr>val := v\<rparr>\<rparr>))
      else w)"
| "step (ChangeMarket v) w =
     (if selectable v (marketSel (ui w))
      then w\<lparr>ui := (ui w)\<lparr>marketSel := (marketSel (ui w))\<lparr>val := v\<rparr>\<rparr>\<rparr>
      else w)"
| "step (TypeDate d) w = w\<lparr>ui := (ui w)\<lparr>dateInp := d\<rparr>\<rparr>"
| "step ClickPredict w =
     (if predictBtn_disabled (ui w) then w else issue w (predictBtn_click (ui w)))"
| "step ClickClear w = w\<lparr>ui := clearBtn_click (ui w)\<rparr>"
| "step (Settle k r) w =
     (if k < length (inflight w)
      then settle r (inflight w ! k) (w\<lparr>inflight := remove_nth k (inflight w)\<rparr>)
      else w)"
| "step (Tick d) w = w\<lparr>clock := d\<rparr>"

fun run :: "event list \<Rightarrow> world \<Rightarrow> world" where
  "run [] w = w"
| "run (e # es) w = run es (step e w)"

section \<open>The price page script (frontend1/price_app.js)\<close>

subsection \<open>Page state\<close>

text \<open>
  The price page has its own elements. A chip shows a dash or the value it was given
  (which may be undefined); the chart has one series after \<open>renderChart\<close> and gets the
  second one from \<open>doPrediction\<close>. \<open>pp_toasts\<close> and \<open>pp_alerts\<close> are the notifications
  and the alert boxes shown so far. The buttons' \<open>disabled\<close> flags are part of the
  page although the script never writes them.
\<close>

datatype chipv = Dash | Shown "real option"

datatype ptext = InitialText | NoPredictionYet | HistoryPlotted
  | Predicted jsstring jsstring jsstring "real option"

record pchart =
  pc_labels :: "jsstring list"
  pc_recent :: "real list"
  pc_predicted :: "cell list option"

record ppage =
  pp_commodity :: select
  pp_state :: select
  pp_market :: select
  pp_date :: jsstring
  pp_commodity_error :: bool
  pp_state_error :: bool
  pp_market_error :: bool
  pp_predictBtn_disabled :: bool
  pp_plotBtn_disabled :: bool
  pp_toasts :: "(jsstring \<times> bool) list"
  pp_alerts :: "jsstring list"
  chip_win :: chipv
  chip_used :: chipv
  chip_pad :: "bool option"
  pp_predictionText :: ptext
  priceChart :: "pchart option"

datatype ppending =
    PStates jsstring
  | PMarkets jsstring jsstring
  | PHistory bool bool query
  | PPredict query

definition showToast :: "jsstring \<Rightarrow> bool \<Rightarrow> ppage \<Rightarrow> ppage" where
  "showToast msg isError p = p\<lparr>pp_toasts := pp_toasts p @ [(msg, isError)]\<rparr>"

definition alert :: "jsstring \<Rightarrow> ppage \<Rightarrow> ppage" where
  "alert msg p = p\<lparr>pp_alerts := pp_alerts p @ [msg]\<rparr>"

definition set_innerHTML :: "jsstring \<Rightarrow> select \<Rightarrow> select" where
  "set_innerHTML txt sel = sel\<lparr>options := [([], txt)], val := []\<rparr>"

subsection \<open>Cascading selects\<close>

text \<open>
  As on the main page, the address is built with \<open>encodeURIComponent\<close> inside the
  \<open>try\<close> block, and a value that is not well formed goes to the \<open>catch\<close> block without
  a request.
\<close>

definition pstates_catch :: "ppage \<Rightarrow> ppage" where
  "pstates_catch p =
     showToast (js ''Failed to load states.'') True
       (p\<lparr>pp_state := set_innerHTML (js ''Error loading states'') (pp_state p)\<rparr>)"

definition onCommodityChange :: "ppage \<Rightarrow> ppage \<times> ppending option" where
  "onCommodityChange p =
     (let c = val (pp_commodity p);
          p1 = p\<lparr>pp_state := (set_innerHTML (js ''Loading states'' @ ellipsis) (pp_state p))\<lparr>disabled := True\<rparr>,
                 pp_market := (set_innerHTML (js ''Select state first'' @ ellipsis) (pp_market p))\<lparr>disabled := True\<rparr>\<rparr>
      in if c = []
         then (p1\<lparr>pp_state := set_innerHTML (js ''Select commodity first'' @ ellipsis) (pp_state p1)\<rparr>, None)
         else if well_formed c then (p1, Some (PStates c))
         else (pstates_catch p1, None))"

definition pstates_settled :: "json response \<Rightarrow> ppage \<Rightarrow> ppage" where
  "pstates_settled r p =
     (case r of
        Failed e \<Rightarrow> pstates_catch p
      | Ok data \<Rightarrow>
          (let sts = or_empty (states data)
           in if length sts = 0
              then showToast (js ''No states found for this commodity in DB.'') True
                     (p\<lparr>pp_state := set_innerHTML (js ''No states found'') (pp_state p)\<rparr>)
              else p\<lparr>pp_state := (pp_state p)\<lparr>disabled := False,
                       options := ([], js ''Select state'' @ ellipsis) # map (\<lambda>s. (s, s)) sts,
                       val := []\<rparr>\<rparr>))"

definition pmarkets_catch :: "ppage \<Rightarrow> ppage" where
  "pmarkets_catch p =
     showToast (js ''Failed to load markets.'') True
       (p\<lparr>pp_market := set_innerHTML (js ''Error loading markets'') (pp_market p)\<rparr>)"

definition onStateChange :: "ppage \<Rightarrow> ppage \<times> ppending option" where
  "onStateChange p =
     (let c = val (pp_commodity p);
          s = val (pp_state p);
          p1 = p\<lparr>pp_market := (set_innerHTML (js ''Loading markets'' @ ellipsis) (pp_market p))\<lparr>disabled := True\<rparr>\<rparr>
      in if c = [] \<or> s = []
         then (p1\<lparr>pp_market := set_innerHTML (js ''Select state first'' @ ellipsis) (pp_market p1)\<rparr>, None)
         else if well_formed c \<and> well_formed s then (p1, Some (PMarkets c s))
         else (pmarkets_catch p1, None))"

definition pmarkets_settled :: "json response \<Rightarrow> ppage \<Rightarrow> ppage" where
  "pmarkets_settled r p =
     (case r of
        Failed e \<Rightarrow> pmarkets_catch p
      | Ok data \<Rightarrow>
          (let ms = or_empty (markets data)
           in if length ms = 0
              then showToast (js ''No markets found for this state.'') True
                     (p\<lparr>pp_market := set_innerHTML (js ''No markets found'') (pp_market p)\<rparr>)
              else p\<lparr>pp_market := (pp_market p)\<lparr>disabled := False,
                       options := ([], js ''Select market'' @ ellipsis) # map (\<lambda>m. (m, m)) ms,
                       val := []\<rparr>\<rparr>))"

subsection \<open>History and prediction\<close>

definition validateContext :: "ppage \<Rightarrow> ppage \<times> bool" where
  "validateContext p =
     (let p1 = p\<lparr>pp_commodity_error := (val (pp_commodity p) = []),
                 pp_state_error := (val (pp_state p) = []),
                 pp_market_error := (val (pp_market p) = [])\<rparr>;
          ok = (val (pp_commodity p) \<noteq> [] \<and> val (pp_state p) \<noteq> [] \<and> val (pp_market p) \<noteq> [])
      in if ok then (p1, True)
         else (alert (js ''Please select commodity, state and market before predicting.'') p1, False))"

definition context_of :: "ppage \<Rightarrow> query" where
  "context_of p = \<lparr>q_commodity = val (pp_commodity p), q_state = val (pp_state p),
     q_market = val (pp_market p),
     q_date = (if pp_date p = [] then None else Some (pp_date p))\<rparr>"

definition updateWindowChips :: "chipv \<Rightarrow> chipv \<Rightarrow> bool \<Rightarrow> ppage \<Rightarrow> ppage" where
  "updateWindowChips win used pad p = p\<lparr>chip_win := win, chip_used := used, chip_pad := Some pad\<rparr>"

definition renderChart :: "jsstring list \<Rightarrow> real list \<Rightarrow> ppage \<Rightarrow> ppage" where
  "renderChart ls vs p = p\<lparr>priceChart := Some \<lparr>pc_labels = ls, pc_recent = vs, pc_predicted = None\<rparr>\<rparr>"

definition history_failed :: jsstring where
  "history_failed = js ''Could not load history. Maybe DB has no data for this context.''"

text \<open>
  The continuation of \<open>loadHistory\<close>. With \<open>plotOnly\<close>, reading the length of a missing
  \<open>prices\<close> throws after the chart has been rendered, and the \<open>catch\<close> block shows the
  same notification as for a failed request.
\<close>

definition history_settled :: "bool \<Rightarrow> json response \<Rightarrow> ppage \<Rightarrow> ppage" where
  "history_settled plotOnly r p =
     (case r of
        Failed e \<Rightarrow> showToast history_failed True p
      | Ok data \<Rightarrow>
          (let p1 = renderChart (or_empty (dates data)) (or_empty (prices data)) p
           in if plotOnly
              then (case prices data of
                      None \<Rightarrow> showToast history_failed True p1
                    | Some ps \<Rightarrow>
                        (updateWindowChips Dash (Shown (Some (real (length ps)))) False p1)
                          \<lparr>pp_predictionText := HistoryPlotted\<rparr>)
              else p1))"

text \<open>
  The continuation of \<open>doPrediction\<close>. The second series is built from the length of
  the first; with an empty first series under a non-empty label sequence
  \<open>new Array(-1)\<close> throws, and the \<open>catch\<close> block reports it as a failed prediction
  (the message of the RangeError is the engine's).
\<close>

definition prediction_settled :: "query \<Rightarrow> json response \<Rightarrow> ppage \<Rightarrow> ppage" where
  "prediction_settled q r p =
     (case r of
        Failed msg \<Rightarrow> alert (js ''Prediction failed: '' @ msg) p
      | Ok out \<Rightarrow>
          (let p1 = (updateWindowChips (Shown (window_size out)) (Shown (used_points out)) (padded out) p)
                      \<lparr>pp_predictionText := Predicted (q_commodity q) (q_market q) (q_state q)
                                              (predicted_next_price out)\<rparr>
           in case priceChart p1 of
                None \<Rightarrow> showToast (js ''Prediction successful.'') False p1
              | Some ch \<Rightarrow>
                  if length (pc_labels ch) > 0
                  then (if length (pc_recent ch) = 0
                        then alert (js ''Prediction failed: Invalid array length'') p1
                        else showToast (js ''Prediction successful.'') False
                               (p1\<lparr>priceChart := Some (ch\<lparr>pc_predicted :=
                                     Some (replicate (length (pc_recent ch) - 1) Null @
                                           [cell_of (predicted_next_price out)])\<rparr>)\<rparr>))
                  else showToast (js ''Prediction successful.'') False p1))"

definition onPredictClick :: "ppage \<Rightarrow> ppage \<times> ppending option" where
  "onPredictClick p =
     (case validateContext p of
        (p1, False) \<Rightarrow> (p1, None)
      | (p1, True) \<Rightarrow> (p1, Some (PHistory False True (context_of p1))))"

definition onPlotClick :: "ppage \<Rightarrow> ppage \<times> ppending option" where
  "onPlotClick p =
     (case validateContext p of
        (p1, False) \<Rightarrow> (p1, None)
      | (p1, True) \<Rightarrow> (p1, Some (PHistory True False (context_of p1))))"

definition clearForm :: "ppage \<Rightarrow> ppage" where
  "clearForm p =
     (updateWindowChips Dash Dash True
        (p\<lparr>pp_commodity := (pp_commodity p)\<lparr>val :=
              (case options (pp_commodity p) of [] \<Rightarrow> [] | o1 # os \<Rightarrow> fst o1)\<rparr>,
           pp_state := (set_innerHTML (js ''Select commodity first'' @ ellipsis) (pp_state p))\<lparr>disabled := True\<rparr>,
           pp_market := (set_innerHTML (js ''Select state first'' @ ellipsis) (pp_market p))\<lparr>disabled := True\<rparr>,
           pp_date := []\<rparr>))
       \<lparr>pp_predictionText := NoPredictionYet, priceChart := None\<rparr>"

subsection \<open>The price page as an event-driven system\<close>

record pworld =
  pui :: ppage
  pinflight :: "ppending list"

datatype pevent =
    PChangeCommodity jsstring
  | PChangeState jsstring
  | PChangeMarket jsstring
  | PTypeDate jsstring
  | PClickPredict
  | PClickPlot
  | PClickClear
  | PSettle nat "json response"

definition pissue :: "pworld \<Rightarrow> ppage \<times> ppending option \<Rightarrow> pworld" where
  "pissue w r = w\<lparr>pui := fst r,
                  pinflight := pinflight w @ (case snd r of None \<Rightarrow> [] | Some x \<Rightarrow> [x])\<rparr>"

text \<open>
  \<open>onPredictClick\<close> awaits \<open>loadHistory\<close> and then calls \<open>doPrediction\<close>, which reads
  the inputs as they are at that moment and issues the prediction request.
\<close>

fun psettle :: "json response \<Rightarrow> ppending \<Rightarrow> pworld \<Rightarrow> pworld" where
  "psettle r (PStates c) w = w\<lparr>pui := pstates_settled r (pui w)\<rparr>"
| "psettle r (PMarkets c s) w = w\<lparr>pui := pmarkets_settled r (pui w)\<rparr>"
| "psettle r (PHistory plotOnly thenPredict q) w =
     (let p1 = history_settled plotOnly r (pui w)
      in pissue w (p1, if thenPredict then Some (PPredict (context_of p1)) else None))"
| "psettle r (PPredict q) w = w\<lparr>pui := prediction_settled q r (pui w)\<rparr>"

fun pstep :: "pevent \<Rightarrow> pworld \<Rightarrow> pworld" where
  "pstep (PChangeCommodity v) w =
     (if selectable v (pp_commodity (pui w))
      then pissue w (onCommodityChange ((pui w)\<lparr>pp_commodity := (pp_commodity (pui w))\<lparr>val := v\<rparr>\<rparr>))
      else w)"
| "pstep (PChangeState v) w =
     (if selectable v (pp_state (pui w))
      then pissue w (onStateChange ((pui w)\<lparr>pp_state := (pp_state (pui w))\<lparr>val := v\<rparr>\<rparr>))
      else w)"
| "pstep (PChangeMarket v) w =
     (if selectable v (pp_market (pui w))
      then w\<lparr>pui := (pui w)\<lparr>pp_market := (pp_market (pui w))\<lparr>val := v\<rparr>\<rparr>\<rparr>
      else w)"
| "pstep (PTypeDate d) w = w\<lparr>pui := (pui w)\<lparr>pp_date := d\<rparr>\<rparr>"
| "pstep PClickPredict w =
     (if pp_predictBtn_disabled (pui w) then w else pissue w (onPredictClick (pui w)))"
| "pstep PClickPlot w =
     (if pp_plotBtn_disabled (pui w) then w else pissue w (onPlotClick (pui w)))"
| "pstep PClickClear w = w\<lparr>pui := clearForm (pui w)\<rparr>"
| "pstep (PSettle k r) w =
     (if k < length (pinflight w)
      then psettle r (pinflight w ! k) (w\<lparr>pinflight := remove_nth k (pinflight w)\<rparr>)
      else w)"

fun prun :: "pevent list \<Rightarrow> pworld \<Rightarrow> pworld" where
  "prun [] w = w"
| "prun (e # es) w = prun es (pstep e w)"

section \<open>The crop recommendation script (frontend1/crop_app.js)\<close>

subsection \<open>Numbers\<close>

text \<open>
  A JavaScript number is a finite value, an infinity or NaN; \<open><\<close> is false whenever
  an operand is NaN. The conversion \<open>Number\<close> of a string is the host's, and is a
  parameter of the functions below.
\<close>

datatype jsnum = NaN | NegInf | Fin real | PosInf

fun js_less :: "jsnum \<Rightarrow> jsnum \<Rightarrow> bool" where
  "js_less NaN y = False"
| "js_less x NaN = False"
| "js_less PosInf y = False"
| "js_less x NegInf = False"
| "js_less NegInf y = True"
| "js_less x PosInf = True"
| "js_less (Fin a) (Fin b) = (a < b)"

text \<open>
  \<open>Number\<close> on a string of decimal digits: the integer they denote. It serves to
  evaluate the functions at concrete inputs; other strings are not given to it.
\<close>

definition digits_value :: "jsstring \<Rightarrow> nat" where
  "digits_value s = foldl (\<lambda>n u. 10 * n + (unat u - 48)) 0 s"

definition Number_digits :: "jsstring \<Rightarrow> jsnum" where
  "Number_digits s = (if s \<noteq> [] \<and> list_all is_digit s then Fin (real (digits_value s)) else NaN)"

subsection \<open>Page state\<close>

datatype field = fN | fP | fK | fTemperature | fHumidity | fPh | fRainfall

record payload =
  pl_N :: jsnum
  pl_P :: jsnum
  pl_K :: jsnum
  pl_temperature :: jsnum
  pl_humidity :: jsnum
  pl_ph :: jsnum
  pl_rainfall :: jsnum

text \<open>The errors thrown inside \<open>onRecommendClick\<close>; the alert box shows their message.\<close>

datatype cr_error =
    PleaseEnter field
  | MustBeNumber field
  | ShouldBeBetween field jsnum jsnum
  | RequestFailed jsstring

record recommendation =
  recommended_crop :: "jsstring option"
  confidence :: "real option"

text \<open>
  Each input has its text and its \<open>input--error\<close> class. \<open>cr_result\<close> is what
  \<open>renderResult\<close> was last given (its markup is a function of these two values).
\<close>

record cpage =
  cr_value :: "field \<Rightarrow> jsstring"
  cr_error_class :: "field \<Rightarrow> bool"
  cr_recoBtn_disabled :: bool
  cr_alerts :: "cr_error list"
  cr_toasts :: "(jsstring \<times> bool) list"
  cr_result :: "(recommendation \<times> payload) option"

subsection \<open>getNumber and onRecommendClick\<close>

definition getNumber ::
  "(jsstring \<Rightarrow> jsnum) \<Rightarrow> field \<Rightarrow> jsnum \<Rightarrow> jsnum \<Rightarrow> cpage \<Rightarrow> cpage \<times> (cr_error + jsnum)" where
  "getNumber Number id' lo hi p =
     (let p1 = p\<lparr>cr_error_class := (cr_error_class p)(id' := False)\<rparr>;
          bad = p1\<lparr>cr_error_class := (cr_error_class p1)(id' := True)\<rparr>;
          raw = trim (cr_value p id')
      in if raw = [] then (bad, Inl (PleaseEnter id'))
         else (let v = Number raw
               in if v = NaN then (bad, Inl (MustBeNumber id'))
                  else if js_less v lo \<or> js_less hi v then (bad, Inl (ShouldBeBetween id' lo hi))
                  else (p1, Inr v)))"

text \<open>Sequencing inside the \<open>try\<close> block: the first exception ends it.\<close>

definition and_then ::
  "cpage \<times> (cr_error + 'a) \<Rightarrow> ('a \<Rightarrow> cpage \<Rightarrow> cpage \<times> (cr_error + 'b)) \<Rightarrow> cpage \<times> (cr_error + 'b)" where
  "and_then r f = (case r of (p, Inl e) \<Rightarrow> (p, Inl e) | (p, Inr v) \<Rightarrow> f v p)"

definition read_inputs :: "(jsstring \<Rightarrow> jsnum) \<Rightarrow> cpage \<Rightarrow> cpage \<times> (cr_error + payload)" where
  "read_inputs Number p =
     and_then (getNumber Number fN (Fin 0) (Fin 200) p) (\<lambda>n p.
     and_then (getNumber Number fP (Fin 0) (Fin 200) p) (\<lambda>ph' p.
     and_then (getNumber Number fK (Fin 0) (Fin 300) p) (\<lambda>k p.
     and_then (getNumber Number fTemperature (Fin (- 10)) (Fin 60) p) (\<lambda>t p.
     and_then (getNumber Number fHumidity (Fin 0) (Fin 100) p) (\<lambda>h p.
     and_then (getNumber Number fPh (Fin 0) (Fin 14) p) (\<lambda>a p.
     and_then (getNumber Number fRainfall (Fin 0) (Fin 500) p) (\<lambda>r p.
       (p, Inr \<lparr>pl_N = n, pl_P = ph', pl_K = k, pl_temperature = t, pl_humidity = h,
                pl_ph = a, pl_rainfall = r\<rparr>))))))))"

definition cr_alert :: "cr_error \<Rightarrow> cpage \<Rightarrow> cpage" where
  "cr_alert e p = p\<lparr>cr_alerts := cr_alerts p @ [e]\<rparr>"

text \<open>
  The handler up to the \<open>fetch\<close>: the request carries the payload as its body. Its
  continuation renders the result, or alerts the message of the failure.
\<close>

definition onRecommendClick :: "(jsstring \<Rightarrow> jsnum) \<Rightarrow> cpage \<Rightarrow> cpage \<times> payload option" where
  "onRecommendClick Number p =
     (case read_inputs Number p of
        (p1, Inl e) \<Rightarrow> (cr_alert e p1, None)
      | (p1, Inr pl) \<Rightarrow> (p1, Some pl))"

definition recommend_settled :: "payload \<Rightarrow> recommendation response \<Rightarrow> cpage \<Rightarrow> cpage" where
  "recommend_settled pl r p =
     (case r of
        Failed msg \<Rightarrow> cr_alert (RequestFailed msg) p
      | Ok data \<Rightarrow> p\<lparr>cr_result := Some (data, pl),
                      cr_toasts := cr_toasts p @ [(js ''Crop recommendation generated.'', False)]\<rparr>)"

subsection \<open>The crop page as an event-driven system\<close>

record cworld =
  cui :: cpage
  cinflight :: "payload list"

datatype cevent =
    CType field jsstring
  | CClickRecommend
  | CSettle nat "recommendation response"

fun cstep :: "(jsstring \<Rightarrow> jsnum) \<Rightarrow> cevent \<Rightarrow> cworld \<Rightarrow> cworld" where
  "cstep Number (CType f txt) w = w\<lparr>cui := (cui w)\<lparr>cr_value := (cr_value (cui w))(f := txt)\<rparr>\<rparr>"
| "cstep Number CClickRecommend w =
     (if cr_recoBtn_disabled (cui w) then w
      else (case onRecommendClick Number (cui w) of
              (p1, None) \<Rightarrow> w\<lparr>cui := p1\<rparr>
            | (p1, Some pl) \<Rightarrow> w\<lparr>cui := p1, cinflight := cinflight w @ [pl]\<rparr>))"
| "cstep Number (CSettle k r) w =
     (if k < length (cinflight w)
      then w\<lparr>cui := recommend_settled (cinflight w ! k) r (cui w),
             cinflight := remove_nth k (cinflight w)\<rparr>
      else w)"

fun crun :: "(jsstring \<Rightarrow> jsnum) \<Rightarrow> cevent list \<Rightarrow> cworld \<Rightarrow> cworld" where
  "crun Number [] w = w"
| "crun Number (e # es) w = crun Number es (cstep Number e w)"

text \<open>The bounds of the seven inputs, as a table.\<close>

fun bounds :: "field \<Rightarrow> real \<times> real" where
  "bounds fN = (0, 200)"
| "bounds fP = (0, 200)"
| "bounds fK = (0, 300)"
| "bounds fTemperature = (- 10, 60)"
| "bounds fHumidity = (0, 100)"
| "bounds fPh = (0, 14)"
| "bounds fRainfall = (0, 500)"

definition all_fields :: "field list" where
  "all_fields = [fN, fP, fK, fTemperature, fHumidity, fPh, fRainfall]"

text \<open>An input is accepted when it is a number within its bounds, both ends included.\<close>

definition accepted :: "(jsstring \<Rightarrow> jsnum) \<Rightarrow> cpage \<Rightarrow> field \<Rightarrow> bool" where
  "accepted Number p f =
     (case Number (trim (cr_value p f)) of
        Fin x \<Rightarrow> trim (cr_value p f) \<noteq> [] \<and> fst (bounds f) \<le> x \<and> x \<le> snd (bounds f)
      | _ \<Rightarrow> False)"

definition payload_of :: "(jsstring \<Rightarrow> jsnum) \<Rightarrow> cpage \<Rightarrow> payload" where
  "payload_of Number p =
     \<lparr>pl_N = Number (trim (cr_value p fN)), pl_P = Number (trim (cr_value p fP)),
      pl_K = Number (trim (cr_value p fK)),
      pl_temperature = Number (trim (cr_value p fTemperature)),
      pl_humidity = Number (trim (cr_value p fHumidity)),
      pl_ph = Number (trim (cr_value p fPh)),
      pl_rainfall = Number (trim (cr_value p fRainfall))\<rparr>"

section \<open>Predicates of the properties\<close>

text \<open>A select that is disabled, shows no value and offers only its placeholder.\<close>

definition reset_select :: "select \<Rightarrow> bool" where
  "reset_select sel = (disabled sel \<and> val sel = [] \<and> map fst (options sel) = [[]])"



text \<open>The error \<open>getNumber\<close> throws for an input it does not accept.\<close>

definition rejection :: "(jsstring \<Rightarrow> jsnum) \<Rightarrow> field \<Rightarrow> cpage \<Rightarrow> cr_error" where
  "rejection Number f p =
     (if trim (cr_value p f) = [] then PleaseEnter f
      else if Number (trim (cr_value p f)) = NaN then MustBeNumber f
      else ShouldBeBetween f (Fin (fst (bounds f))) (Fin (snd (bounds f))))"

text \<open>
  The requests of the predict handler (the prediction and, after it, the history), their
  number in flight, and the relation between that number and the button: the button is
  disabled exactly while one of them is in flight, and there is never a second one.
\<close>

fun is_predict_chain :: "pending \<Rightarrow> bool" where
  "is_predict_chain (PredictPost q) = True"
| "is_predict_chain (SeriesFetch q resp) = True"
| "is_predict_chain x = False"

definition predicting :: "world \<Rightarrow> nat" where
  "predicting w = length (filter is_predict_chain (inflight w))"

definition guarded :: "world \<Rightarrow> bool" where
  "guarded w = (predicting w = (if predictBtn_disabled (ui w) then 1 else 0))"

section \<open>Concrete pages\<close>

definition wheat :: jsstring where "wheat = js ''Wheat''"
definition rice :: jsstring where "rice = js ''Rice''"
definition punjab :: jsstring where "punjab = js ''Punjab''"
definition ludhiana :: jsstring where "ludhiana = js ''Ludhiana''"

definition chosen :: "jsstring \<Rightarrow> jsstring \<Rightarrow> select" where
  "chosen firstText v = \<lparr>disabled = False, options = [([], firstText), (v, v)], val = v\<rparr>"

text \<open>The main page with Wheat, Punjab and Ludhiana selected and \<open>d\<close> typed as date.\<close>

definition filled :: "jsstring \<Rightarrow> page" where
  "filled d = \<lparr>commodity = chosen (js ''Select a commodity'' @ ellipsis) wheat,
     stateSel = chosen (js ''Select a state'' @ ellipsis) punjab,
     marketSel = chosen (js ''Select a market'' @ ellipsis) ludhiana,
     dateInp = d, predictBtn_disabled = False, resBox_hide = True, resBox_text = None,
     winPill = None, usedPill = None, padPill = None, toaster = [], chartNote = [],
     chart = Some \<lparr>labels = [], recent = [], predicted = []\<rparr>\<rparr>"

text \<open>The same page before a market has been chosen.\<close>

definition no_market :: "jsstring \<Rightarrow> page" where
  "no_market d = (filled d)\<lparr>marketSel :=
     setDisabled (marketSel (filled d)) True (Some (js ''Select state first'' @ ellipsis))\<rparr>"

definition world0 :: world where
  "world0 = \<lparr>ui = filled [], inflight = [], clock = js ''2024-05-01'',
     html_options = plain_options\<rparr>"



text \<open>The price page, with the same selections and with the same commodities loaded.\<close>

definition pfilled :: "jsstring \<Rightarrow> ppage" where
  "pfilled d = \<lparr>pp_commodity = chosen (js ''Select commodity'' @ ellipsis) wheat,
     pp_state = chosen (js ''Select state'' @ ellipsis) punjab,
     pp_market = chosen (js ''Select market'' @ ellipsis) ludhiana,
     pp_date = d, pp_commodity_error = False, pp_state_error = False, pp_market_error = False,
     pp_predictBtn_disabled = False, pp_plotBtn_disabled = False, pp_toasts = [], pp_alerts = [],
     chip_win = Dash, chip_used = Dash, chip_pad = None, pp_predictionText = InitialText,
     priceChart = None\<rparr>"

definition pworld0 :: pworld where
  "pworld0 = \<lparr>pui = pfilled [], pinflight = []\<rparr>"



text \<open>Response bodies and queries.\<close>

definition body :: json where
  "body = \<lparr>states = None, markets = None, dates = None, prices = None,
     predicted_next_price = None, window_size = None, used_points = None, padded = False\<rparr>"





definition query0 :: query where
  "query0 = \<lparr>q_commodity = wheat, q_state = punjab, q_market = ludhiana, q_date = None\<rparr>"

definition hist2 :: json where
  "hist2 = body\<lparr>dates := Some [js ''2024-01-01'', js ''2024-01-02''], prices := Some [10, 11]\<rparr>"

definition predicted12 :: json where
  "predicted12 = body\<lparr>predicted_next_price := Some 12\<rparr>"

definition query3 :: query where
  "query3 = query0\<lparr>q_date := Some (js ''2024-01-03'')\<rparr>"

text \<open>The crop page with \<open>n\<close> typed as N and the other six inputs within their bounds.\<close>

definition cfilled :: "jsstring \<Rightarrow> cpage" where
  "cfilled n = \<lparr>cr_value = (\<lambda>f. case f of fN \<Rightarrow> n | fP \<Rightarrow> js ''40'' | fK \<Rightarrow> js ''40''
        | fTemperature \<Rightarrow> js ''25'' | fHumidity \<Rightarrow> js ''80'' | fPh \<Rightarrow> js ''7''
        | fRainfall \<Rightarrow> js ''200''),
     cr_error_class = (\<lambda>f. False), cr_recoBtn_disabled = False, cr_alerts = [], cr_toasts = [],
     cr_result = None\<rparr>"

definition cworld0 :: cworld where
  "cworld0 = \<lparr>cui = cfilled (js ''150''), cinflight = []\<rparr>"

section \<open>Properties of trimming and of the date pattern\<close>

lemma date_re_unfold:
  "date_re = [Digit, Digit, Digit, Digit, Lit hyphen, Digit, Digit, Lit hyphen, Digit, Digit]"
  by (simp add: date_re_def eval_nat_numeral)

lemma length10:
  "length (d::'a list) = 10 \<longleftrightarrow> (\<exists>a b c e f g h i j k. d = [a, b, c, e, f, g, h, i, j, k])"
  by (auto simp: eval_nat_numeral length_Suc_conv)

lemma regex_date: "regex_test date_re d \<longleftrightarrow> yyyy_mm_dd d"
  unfolding regex_test_def date_re_unfold yyyy_mm_dd_def length10
  by (auto simp: list_all2_Cons1)

lemma last_dropWhile: "dropWhile P xs \<noteq> [] \<Longrightarrow> last (dropWhile P xs) = last xs"
  by (induction xs) auto

lemma trim_ends: "trim s \<noteq> [] \<Longrightarrow> \<not> is_ws (hd (trim s)) \<and> \<not> is_ws (last (trim s))"
proof -
  assume ne: "trim s \<noteq> []"
  define t where "t = dropWhile is_ws s"
  define u where "u = dropWhile is_ws (rev t)"
  have tr: "trim s = rev u" by (simp add: trim_def t_def u_def)
  with ne have u: "u \<noteq> []" by simp
  then have t: "t \<noteq> []" by (auto simp: u_def)
  have "\<not> is_ws (hd u)" using u unfolding u_def by (rule hd_dropWhile)
  moreover have "last u = last (rev t)" using u unfolding u_def by (rule last_dropWhile)
  moreover have "\<not> is_ws (hd t)" using t unfolding t_def by (rule hd_dropWhile)
  ultimately show ?thesis using u t by (simp add: tr hd_rev last_rev)
qed

lemma trim_fixed: "s = [] \<or> (\<not> is_ws (hd s) \<and> \<not> is_ws (last s)) \<Longrightarrow> trim s = s"
proof -
  assume a: "s = [] \<or> (\<not> is_ws (hd s) \<and> \<not> is_ws (last s))"
  then have 1: "dropWhile is_ws s = s" by (auto simp: dropWhile_eq_self_iff)
  from a have 2: "dropWhile is_ws (rev s) = rev s" by (auto simp: dropWhile_eq_self_iff hd_rev)
  show ?thesis by (simp add: trim_def 1 2)
qed

lemma trim_trim: "trim (trim s) = trim s"
  using trim_ends[of s] by (intro trim_fixed) auto

lemma trim_stripped: "trim s = stripped s"
proof (cases "list_all is_ws s")
  case True
  then have d: "dropWhile is_ws s = []" by (induction s) auto
  have "trim s = []" unfolding trim_def d by simp
  moreover have "stripped s = []" using True by (simp add: stripped_def)
  ultimately show ?thesis by simp
next
  case False
  define t where "t = dropWhile is_ws s"
  have t: "t = drop (leading s) s" by (simp add: t_def leading_def dropWhile_eq_drop)
  have "list_all is_ws s" if "dropWhile is_ws s = []" using that by (induction s) (auto split: if_splits)
  with False have "t \<noteq> []" by (auto simp: t_def)
  then have "\<not> is_ws (hd t)" unfolding t_def by (rule hd_dropWhile)
  with \<open>t \<noteq> []\<close> have ex: "\<exists>x\<in>set (rev t). \<not> is_ws x" by (cases t) auto
  have "rev s = rev t @ rev (take (leading s) s)"
    by (simp add: t flip: rev_append)
  moreover from ex obtain x where "x \<in> set (rev t)" and "\<not> is_ws x" by blast
  then have "takeWhile is_ws (rev t @ ys) = takeWhile is_ws (rev t)" for ys
    by (rule takeWhile_append1)
  ultimately have "takeWhile is_ws (rev s) = takeWhile is_ws (rev t)" by simp
  then have n: "length (takeWhile is_ws (rev t)) = trailing s" by (simp add: trailing_def)
  have e: "dropWhile is_ws (rev t) = drop (trailing s) (rev t)"
    unfolding dropWhile_eq_drop n ..
  have "trim s = rev (drop (trailing s) (rev t))"
    by (simp only: trim_def t_def [symmetric] e)
  also have "\<dots> = take (length t - trailing s) t" by (simp add: rev_drop)
  also have "\<dots> = take (length s - leading s - trailing s) (drop (leading s) s)" by (simp add: t)
  finally show ?thesis using False by (simp add: stripped_def)
qed

lemmas example_defs = filled_def no_market_def chosen_def wheat_def rice_def punjab_def
  ludhiana_def js_def ellipsis_def trim_def is_ws_def setDisabled_def

lemmas world_defs = world0_def pworld0_def pfilled_def body_def


section \<open>The query validator\<close>

text \<open>
  Claim C2. For every state of the inputs, \<open>validate\<close> either returns the complete
  normalized query (all three selections non-empty in normal form) and leaves the page
  as it is, or returns null and adds exactly one notification to the page, the error
  notification of the first unmet requirement in the order commodity, state, market,
  date pattern. An empty date is not an unmet requirement: the returned query then has
  no date.
\<close>

theorem validate_first_unmet:
  "(case first_unmet p of
      Some r \<Rightarrow> validate p = (p\<lparr>toaster := toaster p @ [(message r, True)]\<rparr>, None)
    | None \<Rightarrow> validate p = (p, Some (requested p)) \<and> complete (requested p))
   \<and> (stripped (dateInp p) = [] \<longrightarrow> \<not> unmet p DatePattern \<and> q_date (requested p) = None)"
  by (simp add: validate_def first_unmet_def requested_def complete_def Let_def regex_date
      toast_def trim_stripped)

text \<open>
  At four pages: every requirement met with an empty date; no market chosen (and a
  malformed date, which is not reached); a malformed date as the only unmet requirement;
  a date of blanks only.
\<close>

theorem validate_first_unmet_witness:
  "validate (filled []) =
     (filled [], Some \<lparr>q_commodity = wheat, q_state = punjab, q_market = ludhiana, q_date = None\<rparr>)
   \<and> snd (validate (no_market (js ''2024-1-5''))) = None
   \<and> toaster (fst (validate (no_market (js ''2024-1-5'')))) = [(js ''Select a market.'', True)]
   \<and> first_unmet (filled (js ''2024-1-5'')) = Some DatePattern
   \<and> snd (validate (filled (js ''2024-1-5''))) = None
   \<and> toaster (fst (validate (filled (js ''2024-1-5'')))) =
       [(js ''Invalid date format. Use YYYY-MM-DD.'', True)]
   \<and> snd (validate (filled (js ''  ''))) =
       Some \<lparr>q_commodity = wheat, q_state = punjab, q_market = ludhiana, q_date = None\<rparr>"
proof -
  have f: "first_unmet (filled []) = None" "first_unmet (no_market (js ''2024-1-5'')) = Some MarketRequired"
    "first_unmet (filled (js ''2024-1-5'')) = Some DatePattern" "first_unmet (filled (js ''  '')) = None"
    by (simp_all add: first_unmet_def example_defs yyyy_mm_dd_def flip: trim_stripped)
  have r: "requested (filled []) =
      \<lparr>q_commodity = wheat, q_state = punjab, q_market = ludhiana, q_date = None\<rparr>"
    "requested (filled (js ''  '')) =
      \<lparr>q_commodity = wheat, q_state = punjab, q_market = ludhiana, q_date = None\<rparr>"
    by (simp_all add: requested_def example_defs flip: trim_stripped)
  have t: "toaster (no_market d) = []" "toaster (filled d) = []" for d
    by (simp_all add: no_market_def filled_def)
  show ?thesis
    using validate_first_unmet [of "filled []"] validate_first_unmet [of "no_market (js ''2024-1-5'')"]
      validate_first_unmet [of "filled (js ''2024-1-5'')"] validate_first_unmet [of "filled (js ''  '')"]
    by (simp add: f r t)
qed

text \<open>
  Claim C10. \<open>validate\<close> has no failing branch: for every state of the four inputs it
  returns null or a query whose commodity, state and market are the trimmed inputs,
  non-empty and without white space at either end, and whose date is absent or matches
  the pattern of four, two and two digits separated by hyphens.
\<close>

theorem validate_shape:
  "snd (validate p) = None \<or>
   (\<exists>q. snd (validate p) = Some q
      \<and> q_commodity q = trim (val (commodity p)) \<and> q_commodity q \<noteq> []
      \<and> \<not> is_ws (hd (q_commodity q)) \<and> \<not> is_ws (last (q_commodity q))
      \<and> q_state q = trim (val (stateSel p)) \<and> q_state q \<noteq> []
      \<and> \<not> is_ws (hd (q_state q)) \<and> \<not> is_ws (last (q_state q))
      \<and> q_market q = trim (val (marketSel p)) \<and> q_market q \<noteq> []
      \<and> \<not> is_ws (hd (q_market q)) \<and> \<not> is_ws (last (q_market q))
      \<and> (q_date q = None \<or> (\<exists>d. q_date q = Some d \<and> regex_test date_re d)))"
  using trim_ends[of "val (commodity p)"] trim_ends[of "val (stateSel p)"]
    trim_ends[of "val (marketSel p)"]
  by (simp add: validate_def Let_def)

theorem validate_shape_witness:
  "snd (validate (filled (js '' 2024-01-01 ''))) =
     Some \<lparr>q_commodity = wheat, q_state = punjab, q_market = ludhiana,
           q_date = Some (js ''2024-01-01'')\<rparr>
   \<and> regex_test date_re (js ''2024-01-01'')"
  using validate_shape [of "filled (js '' 2024-01-01 '')"]
  by (simp add: validate_def Let_def example_defs regex_date yyyy_mm_dd_def is_digit_def hyphen_def)

text \<open>
  Claim C3, as amended. The date check is a pattern check on the trimmed date text, with
  no calendar validation: when commodity, state and market are selected and the date
  is not empty after trimming, validation succeeds if and only if the trimmed text is
  four digits, hyphen, two digits, hyphen, two digits; the click handler then posts the
  query with the trimmed text as its date, and otherwise issues no request and shows
  the format notification.
\<close>

theorem date_check_trimmed_pattern:
  assumes "trim (val (commodity p)) \<noteq> []" and "trim (val (stateSel p)) \<noteq> []"
    and "trim (val (marketSel p)) \<noteq> []" and "trim (dateInp p) \<noteq> []"
  shows "(snd (validate p) \<noteq> None \<longleftrightarrow> yyyy_mm_dd (trim (dateInp p)))
       \<and> snd (predictBtn_click p) =
           (if yyyy_mm_dd (trim (dateInp p)) then Some (PredictPost (normalized p)) else None)
       \<and> q_date (normalized p) = Some (trim (dateInp p))
       \<and> (\<not> yyyy_mm_dd (trim (dateInp p)) \<longrightarrow>
            toaster (fst (predictBtn_click p)) =
              toaster p @ [(js ''Invalid date format. Use YYYY-MM-DD.'', True)])"
  using assms
  by (simp add: validate_def predictBtn_click_def normalized_def Let_def regex_date toast_def)

text \<open>
  At the two dates of the specification: \<open>2024-13-40\<close> is posted as it is,
  \<open>2024-1-5\<close> is refused with the notification and nothing is posted.
\<close>

theorem date_check_trimmed_pattern_witness:
  "snd (predictBtn_click (filled (js ''2024-13-40''))) =
     Some (PredictPost \<lparr>q_commodity = wheat, q_state = punjab, q_market = ludhiana,
                        q_date = Some (js ''2024-13-40'')\<rparr>)
   \<and> snd (predictBtn_click (filled (js ''2024-1-5''))) = None
   \<and> toaster (fst (predictBtn_click (filled (js ''2024-1-5'')))) =
       [(js ''Invalid date format. Use YYYY-MM-DD.'', True)]"
proof -
  have a: "trim (val (commodity (filled d))) \<noteq> []" "trim (val (stateSel (filled d))) \<noteq> []"
    "trim (val (marketSel (filled d))) \<noteq> []" for d
    by (simp_all add: example_defs)
  have b: "trim (dateInp (filled (js ''2024-13-40''))) = js ''2024-13-40''"
    "trim (dateInp (filled (js ''2024-1-5''))) = js ''2024-1-5''"
    by (simp_all add: example_defs)
  have c: "yyyy_mm_dd (js ''2024-13-40'')" "\<not> yyyy_mm_dd (js ''2024-1-5'')"
    by (simp_all add: yyyy_mm_dd_def js_def is_digit_def hyphen_def)
  have n: "normalized (filled (js ''2024-13-40'')) =
      \<lparr>q_commodity = wheat, q_state = punjab, q_market = ludhiana,
       q_date = Some (js ''2024-13-40'')\<rparr>"
    by (simp add: normalized_def example_defs)
  have t: "toaster (filled d) = []" for d by (simp add: filled_def)
  have e: "js ''2024-13-40'' \<noteq> []" "js ''2024-1-5'' \<noteq> []" by (simp_all add: js_def)
  show ?thesis
    using date_check_trimmed_pattern [OF a, of "js ''2024-13-40''"]
      date_check_trimmed_pattern [OF a, of "js ''2024-1-5''"]
    by (simp add: b c n t e)
qed

text \<open>
  The claim as written compares the input itself with the pattern. A date typed with a
  leading blank is not empty and does not match the pattern, yet validation succeeds.
\<close>

theorem date_untrimmed_counterexample:
  "dateInp (filled (js '' 2024-01-01'')) \<noteq> []
   \<and> \<not> (snd (validate (filled (js '' 2024-01-01''))) \<noteq> None
          \<longleftrightarrow> yyyy_mm_dd (dateInp (filled (js '' 2024-01-01''))))"
  by (simp add: validate_def Let_def example_defs regex_date yyyy_mm_dd_def is_digit_def hyphen_def)

section \<open>Cascading selects\<close>

text \<open>
  Claim C8. Whatever the page and the requests in flight, choosing a commodity value that
  is empty (after trimming on the main page, as it is on the price page) and pressing
  the clear button both leave the state select and the market select disabled, without
  a value and with their placeholder as only option; no request is issued.
\<close>

theorem clearing_commodity_resets:
  "(selectable v (commodity (ui w)) \<and> trim v = [] \<longrightarrow>
      reset_select (stateSel (ui (step (ChangeCommodity v) w)))
    \<and> reset_select (marketSel (ui (step (ChangeCommodity v) w)))
    \<and> inflight (step (ChangeCommodity v) w) = inflight w)
   \<and> reset_select (stateSel (ui (step ClickClear w)))
   \<and> reset_select (marketSel (ui (step ClickClear w)))
   \<and> val (commodity (ui (step ClickClear w))) = []
   \<and> inflight (step ClickClear w) = inflight w
   \<and> (selectable [] (pp_commodity (pui pw)) \<longrightarrow>
        reset_select (pp_state (pui (pstep (PChangeCommodity []) pw)))
      \<and> reset_select (pp_market (pui (pstep (PChangeCommodity []) pw)))
      \<and> pinflight (pstep (PChangeCommodity []) pw) = pinflight pw)
   \<and> reset_select (pp_state (pui (pstep PClickClear pw)))
   \<and> reset_select (pp_market (pui (pstep PClickClear pw)))
   \<and> pinflight (pstep PClickClear pw) = pinflight pw"
  by (simp add: reset_select_def issue_def pissue_def commodity_change_def clearBtn_click_def
      onCommodityChange_def clearForm_def setDisabled_def set_innerHTML_def resetChart_def
      blank_pills_def updateWindowChips_def Let_def split: option.split)

theorem clearing_commodity_resets_witness:
  "selectable [] (commodity (ui world0)) \<and> trim [] = []
   \<and> stateSel (ui (step (ChangeCommodity []) world0)) =
       \<lparr>disabled = True, options = [([], js ''Select commodity first'' @ ellipsis)], val = []\<rparr>
   \<and> reset_select (stateSel (ui (step (ChangeCommodity []) world0)))
   \<and> reset_select (marketSel (ui (step (ChangeCommodity []) world0)))
   \<and> selectable [] (pp_commodity (pui pworld0))
   \<and> reset_select (pp_state (pui (pstep (PChangeCommodity []) pworld0)))
   \<and> reset_select (pp_market (pui (pstep (PChangeCommodity []) pworld0)))"
  using clearing_commodity_resets [of "[]" world0 pworld0]
  by (simp add: world_defs example_defs selectable_def issue_def commodity_change_def Let_def)




section \<open>Settlement order of the dependent-options requests\<close>














text \<open>
  A selected value that is not well formed cannot be encoded into the address: the
  handler issues no request, shows the display of a failed request and raises its
  notification at once.
\<close>

lemma unencodable_commodity:
  assumes "trim (val (commodity p)) \<noteq> []" and "\<not> well_formed (trim (val (commodity p)))"
  shows "snd (commodity_change p) = None
       \<and> options (stateSel (fst (commodity_change p))) = [([], js ''States unavailable'')]
       \<and> toaster (fst (commodity_change p)) =
           toaster p @ [(js ''Could not load states for this commodity.'', True)]"
  using assms by (simp add: commodity_change_def states_catch_def toast_def setDisabled_def Let_def)

lemma unencodable_pp_commodity:
  assumes "val (pp_commodity p) \<noteq> []" and "\<not> well_formed (val (pp_commodity p))"
  shows "snd (onCommodityChange p) = None
       \<and> options (pp_state (fst (onCommodityChange p))) = [([], js ''Error loading states'')]
       \<and> pp_toasts (fst (onCommodityChange p)) = pp_toasts p @ [(js ''Failed to load states.'', True)]"
  using assms
  by (simp add: onCommodityChange_def pstates_catch_def showToast_def set_innerHTML_def Let_def)

lemma lone_surrogate: "\<not> well_formed [0xD800]"
  by (simp add: is_high_def)




section \<open>Prediction and chart\<close>








text \<open>
  With a history of \<open>n > 0\<close> prices, \<open>drawSeries\<close> gives the chart one label more than
  the history has dates, and a second series of \<open>n\<close> cells: \<open>n - 1\<close> nulls and the
  prediction. \<open>doPrediction\<close> of the price page builds the same series over the
  labels of the history alone.
\<close>

lemma drawSeries_with_history:
  assumes "chart p = Some ch" and "dates hist = Some ds" and "prices hist = Some ps" and "ps \<noteq> []"
  shows "drawSeries today q resp (Ok hist) p =
     (None, p\<lparr>chart := Some \<lparr>labels = ds @ [date_or_today today q], recent = ps,
                  predicted = replicate (length ps - 1) Null @ [cell_of (predicted_next_price resp)]\<rparr>,
               chartNote := []\<rparr>)"
  using assms by (simp add: drawSeries_def drawSeries_try_def Let_def)

lemma prediction_settled_with_history:
  assumes "priceChart p = Some ch" and "pc_labels ch \<noteq> []" and "pc_recent ch \<noteq> []"
  shows "priceChart (prediction_settled q (Ok out) p) =
     Some (ch\<lparr>pc_predicted := Some (replicate (length (pc_recent ch) - 1) Null @
                                     [cell_of (predicted_next_price out)])\<rparr>)"
  using assms by (simp add: prediction_settled_def Let_def updateWindowChips_def showToast_def)

text \<open>
  Claim C9. The second series is to be null except at the final index of the label
  sequence, where it holds the predicted price. On the main page, with two points of
  history, the labels are the two dates and the date of the prediction, and the second
  series has two cells only: the predicted price is at index 1, under the last date of
  the history, and index 2, the final one, has no cell.
\<close>

theorem drawSeries_prediction_misplaced:
  "chart (snd (drawSeries (js ''2024-05-01'') query3 predicted12 (Ok hist2) (filled (js ''2024-01-03'')))) =
     Some \<lparr>labels = [js ''2024-01-01'', js ''2024-01-02'', js ''2024-01-03''],
           recent = [10, 11], predicted = [Null, Num 12]\<rparr>"
  by (simp add: drawSeries_def drawSeries_try_def Let_def hist2_def predicted12_def query3_def
      query0_def body_def filled_def date_or_today_def cell_of_def js_def)

section \<open>The inputs of the recommendation\<close>

lemma accepted_error_class [simp]:
  "accepted Number (p\<lparr>cr_error_class := x\<rparr>) f = accepted Number p f"
  by (simp add: accepted_def split: jsnum.split)

lemma rejection_error_class [simp]:
  "rejection Number f (p\<lparr>cr_error_class := x\<rparr>) = rejection Number f p"
  by (simp add: rejection_def)

lemma getNumber_bounds:
  "getNumber Number f (Fin (fst (bounds f))) (Fin (snd (bounds f))) p =
     (if accepted Number p f
      then (p\<lparr>cr_error_class := (cr_error_class p)(f := False)\<rparr>, Inr (Number (trim (cr_value p f))))
      else (p\<lparr>cr_error_class := (cr_error_class p)(f := True)\<rparr>, Inl (rejection Number f p)))"
  by (cases "Number (trim (cr_value p f))")
     (auto simp: getNumber_def accepted_def rejection_def Let_def)

lemmas getNumber_at =
  getNumber_bounds [of _ fN, simplified] getNumber_bounds [of _ fP, simplified]
  getNumber_bounds [of _ fK, simplified] getNumber_bounds [of _ fTemperature, simplified]
  getNumber_bounds [of _ fHumidity, simplified] getNumber_bounds [of _ fPh, simplified]
  getNumber_bounds [of _ fRainfall, simplified]

lemma read_inputs_accepted:
  "snd (read_inputs Number p) =
     (if list_all (accepted Number p) all_fields then Inr (payload_of Number p)
      else Inl (rejection Number (the (find (\<lambda>f. \<not> accepted Number p f) all_fields)) p))"
  by (simp add: read_inputs_def and_then_def getNumber_at all_fields_def payload_of_def)

text \<open>
  Claim C4. \<open>onRecommendClick\<close> issues its request exactly when each of the seven
  inputs is a number within its bounds, and the body of the request then holds these
  seven numbers as they were read; otherwise one alert is shown and no request is
  issued.
\<close>

theorem recommend_inputs_checked:
  "snd (onRecommendClick Number p) =
     (if list_all (accepted Number p) all_fields then Some (payload_of Number p) else None)
   \<and> (\<not> list_all (accepted Number p) all_fields \<longrightarrow>
        length (cr_alerts (fst (onRecommendClick Number p))) = Suc (length (cr_alerts p)))
   \<and> (\<not> cr_recoBtn_disabled (cui w) \<longrightarrow>
        cinflight (cstep Number CClickRecommend w) =
          cinflight w @ (if list_all (accepted Number (cui w)) all_fields
                         then [payload_of Number (cui w)] else []))"
proof -
  have r: "read_inputs Number q = (fst (read_inputs Number q), snd (read_inputs Number q))" for q
    by simp
  have 1: "snd (onRecommendClick Number q) =
      (if list_all (accepted Number q) all_fields then Some (payload_of Number q) else None)" for q
    by (subst onRecommendClick_def, subst r) (simp add: read_inputs_accepted)
  have 2: "length (cr_alerts (fst (onRecommendClick Number p))) = Suc (length (cr_alerts p))"
    if "\<not> list_all (accepted Number p) all_fields"
  proof -
    have "cr_alerts (fst (read_inputs Number p)) = cr_alerts p"
      by (simp add: read_inputs_def and_then_def getNumber_at)
    then show ?thesis using that
      by (subst onRecommendClick_def, subst r) (simp add: read_inputs_accepted cr_alert_def)
  qed
  have 3: "cinflight (cstep Number CClickRecommend w) =
          cinflight w @ (if list_all (accepted Number (cui w)) all_fields
                         then [payload_of Number (cui w)] else [])"
    if "\<not> cr_recoBtn_disabled (cui w)"
    using that 1 [of "cui w"] by (cases "onRecommendClick Number (cui w)") auto
  show ?thesis using 1 2 3 by blast
qed

theorem recommend_inputs_checked_witness:
  "snd (onRecommendClick Number_digits (cfilled (js ''250''))) = None
   \<and> length (cr_alerts (fst (onRecommendClick Number_digits (cfilled (js ''250''))))) = 1
   \<and> pl_N (the (snd (onRecommendClick Number_digits (cfilled (js ''150''))))) = Fin 150
   \<and> cinflight (cstep Number_digits CClickRecommend cworld0) =
       [\<lparr>pl_N = Fin 150, pl_P = Fin 40, pl_K = Fin 40, pl_temperature = Fin 25,
         pl_humidity = Fin 80, pl_ph = Fin 7, pl_rainfall = Fin 200\<rparr>]"
proof -
  have v: "Number_digits (js ''250'') = Fin 250" "Number_digits (js ''150'') = Fin 150"
    "Number_digits (js ''40'') = Fin 40" "Number_digits (js ''25'') = Fin 25"
    "Number_digits (js ''80'') = Fin 80" "Number_digits (js ''7'') = Fin 7"
    "Number_digits (js ''200'') = Fin 200"
    by (simp_all add: Number_digits_def digits_value_def js_def is_digit_def)
  have t: "trim (js ''250'') = js ''250''" "trim (js ''150'') = js ''150''"
    "trim (js ''40'') = js ''40''" "trim (js ''25'') = js ''25''"
    "trim (js ''80'') = js ''80''" "trim (js ''7'') = js ''7''"
    "trim (js ''200'') = js ''200''"
    by (simp_all add: trim_def js_def is_ws_def)
  have n: "js ''250'' \<noteq> []" "js ''150'' \<noteq> []" "js ''40'' \<noteq> []" "js ''25'' \<noteq> []"
    "js ''80'' \<noteq> []" "js ''7'' \<noteq> []" "js ''200'' \<noteq> []"
    by (simp_all add: js_def)
  show ?thesis
    using recommend_inputs_checked [of Number_digits "cfilled (js ''250'')" cworld0]
      recommend_inputs_checked [of Number_digits "cfilled (js ''150'')" cworld0]
    by (simp add: accepted_def all_fields_def payload_of_def cfilled_def cworld0_def v t n)
qed

section \<open>The controls that trigger requests\<close>

lemma filter_remove_nth:
  "k < length xs \<Longrightarrow>
   length (filter P xs) = length (filter P (remove_nth k xs)) + (if P (xs ! k) then 1 else 0)"
proof -
  assume "k < length xs"
  then have "xs = take k xs @ xs ! k # drop (Suc k) xs" by (rule id_take_nth_drop)
  then have "filter P xs = filter P (take k xs @ xs ! k # drop (Suc k) xs)" by simp
  then show ?thesis by (simp add: remove_nth_def)
qed

lemma predictBtn_commodity_change:
  "predictBtn_disabled (fst (commodity_change p)) = predictBtn_disabled p
   \<and> (\<forall>x. snd (commodity_change p) = Some x \<longrightarrow> \<not> is_predict_chain x)"
  by (auto simp: commodity_change_def states_catch_def toast_def Let_def)

lemma predictBtn_state_change:
  "predictBtn_disabled (fst (state_change p)) = predictBtn_disabled p
   \<and> (\<forall>x. snd (state_change p) = Some x \<longrightarrow> \<not> is_predict_chain x)"
  by (auto simp: state_change_def markets_catch_def toast_def Let_def)

lemma predictBtn_states_settled:
  "predictBtn_disabled (states_settled h r p) = predictBtn_disabled p"
  by (simp add: states_settled_def states_catch_def toast_def split: response.split)

lemma predictBtn_markets_settled:
  "predictBtn_disabled (markets_settled h r p) = predictBtn_disabled p"
  by (simp add: markets_settled_def markets_catch_def toast_def split: response.split)

lemma predictBtn_clear: "predictBtn_disabled (clearBtn_click p) = predictBtn_disabled p"
  by (simp add: clearBtn_click_def resetChart_def blank_pills_def split: option.split)

lemma predictBtn_click_cases:
  "(snd (predictBtn_click p) = None \<and> predictBtn_disabled (fst (predictBtn_click p)) = predictBtn_disabled p)
   \<or> (\<exists>q. snd (predictBtn_click p) = Some (PredictPost q) \<and> predictBtn_disabled (fst (predictBtn_click p)))"
  by (cases "validate p")
     (auto simp: predictBtn_click_def validate_def toast_def resetChart_def blank_pills_def Let_def
        split: option.splits if_splits)

lemma predict_settled_cases:
  "(snd (predict_settled q r p) = None \<and> \<not> predictBtn_disabled (fst (predict_settled q r p)))
   \<or> (\<exists>resp. snd (predict_settled q r p) = Some (SeriesFetch q resp)
        \<and> predictBtn_disabled (fst (predict_settled q r p)) = predictBtn_disabled p)"
  by (cases r) (simp_all add: predict_settled_def predict_finally_def)

lemma series_settled_enabled: "\<not> predictBtn_disabled (series_settled today q resp r p)"
  by (simp add: series_settled_def predict_finally_def split: prod.split option.split)

lemma predicting_issue:
  "predicting (issue w r) =
     predicting w + (case snd r of None \<Rightarrow> 0 | Some x \<Rightarrow> if is_predict_chain x then 1 else 0)"
  by (simp add: predicting_def issue_def split: option.split)

lemma ui_issue: "ui (issue w r) = fst r"
  by (simp add: issue_def)

lemma guarded_step: "guarded w \<Longrightarrow> guarded (step e w)"
proof (cases e)
  case (ChangeCommodity v)
  assume "guarded w"
  then show ?thesis
    using ChangeCommodity predictBtn_commodity_change [of "(ui w)\<lparr>commodity := (commodity (ui w))\<lparr>val := v\<rparr>\<rparr>"]
    by (auto simp: guarded_def predicting_issue ui_issue split: option.split)
next
  case (ChangeState v)
  assume "guarded w"
  then show ?thesis
    using ChangeState predictBtn_state_change [of "(ui w)\<lparr>stateSel := (stateSel (ui w))\<lparr>val := v\<rparr>\<rparr>"]
    by (auto simp: guarded_def predicting_issue ui_issue split: option.split)
next
  case (ChangeMarket v)
  assume "guarded w"
  then show ?thesis using ChangeMarket by (auto simp: guarded_def predicting_def)
next
  case (TypeDate d)
  assume "guarded w"
  then show ?thesis using TypeDate by (auto simp: guarded_def predicting_def)
next
  case ClickPredict
  assume "guarded w"
  then show ?thesis
    using ClickPredict predictBtn_click_cases [of "ui w"]
    by (auto simp: guarded_def predicting_issue ui_issue)
next
  case ClickClear
  assume "guarded w"
  then show ?thesis using ClickClear by (auto simp: guarded_def predicting_def predictBtn_clear)
next
  case (Tick d)
  assume "guarded w"
  then show ?thesis using Tick by (auto simp: guarded_def predicting_def)
next
  case (Settle k r)
  assume g: "guarded w"
  show ?thesis
  proof (cases "k < length (inflight w)")
    case False
    with g Settle show ?thesis by simp
  next
    case True
    define w1 where "w1 = w\<lparr>inflight := remove_nth k (inflight w)\<rparr>"
    have s: "step e w = settle r (inflight w ! k) w1"
      using True Settle by (simp add: w1_def)
    have u: "ui w1 = ui w" by (simp add: w1_def)
    have c: "predicting w = predicting w1 + (if is_predict_chain (inflight w ! k) then 1 else 0)"
      using filter_remove_nth [OF True, of is_predict_chain] by (simp add: predicting_def w1_def)
    show ?thesis
    proof (cases "inflight w ! k")
      case (StatesFetch c')
      with g c show ?thesis
        by (simp add: s u guarded_def predicting_def predictBtn_states_settled)
    next
      case (MarketsFetch c' s')
      with g c show ?thesis
        by (simp add: s u guarded_def predicting_def predictBtn_markets_settled)
    next
      case (PredictPost q)
      with g c have d: "predictBtn_disabled (ui w)" and z: "predicting w1 = 0"
        by (auto simp: guarded_def split: if_splits)
      show ?thesis
        using predict_settled_cases [of q r "ui w"] d z
        by (auto simp: s u PredictPost guarded_def predicting_issue ui_issue)
    next
      case (SeriesFetch q resp)
      with g c have z: "predicting w1 = 0"
        by (auto simp: guarded_def split: if_splits)
      then have "predicting (w1\<lparr>ui := x\<rparr>) = 0" for x by (simp add: predicting_def)
      then show ?thesis
        by (simp add: s SeriesFetch guarded_def series_settled_enabled)
    qed
  qed
qed

lemma guarded_run: "guarded w \<Longrightarrow> guarded (run es w)"
  by (induction es arbitrary: w) (simp_all add: guarded_step)

lemma guarded_inflight:
  "guarded w \<Longrightarrow> predictBtn_disabled (ui w) \<longleftrightarrow> (\<exists>x\<in>set (inflight w). is_predict_chain x)"
proof -
  have "(\<exists>x\<in>set (inflight w). is_predict_chain x) \<longleftrightarrow> predicting w \<noteq> 0"
    by (simp add: predicting_def filter_empty_conv)
  moreover assume "guarded w"
  ultimately show ?thesis by (simp add: guarded_def split: if_splits)
qed

lemma recoBtn_onRecommendClick:
  "cr_recoBtn_disabled (fst (onRecommendClick Number p)) = cr_recoBtn_disabled p"
proof -
  obtain p1 x where r: "read_inputs Number p = (p1, x)" by (cases "read_inputs Number p")
  have "cr_recoBtn_disabled (fst (read_inputs Number p)) = cr_recoBtn_disabled p"
    by (simp add: read_inputs_def and_then_def getNumber_at)
  with r have "cr_recoBtn_disabled p1 = cr_recoBtn_disabled p" by simp
  with r show ?thesis by (cases x) (simp_all add: onRecommendClick_def cr_alert_def)
qed

lemma recoBtn_cstep: "cr_recoBtn_disabled (cui (cstep Number e w)) = cr_recoBtn_disabled (cui w)"
proof (cases e)
  case (CType f s)
  then show ?thesis by simp
next
  case CClickRecommend
  obtain p1 x where r: "onRecommendClick Number (cui w) = (p1, x)"
    by (cases "onRecommendClick Number (cui w)")
  with recoBtn_onRecommendClick [of Number "cui w"]
  have "cr_recoBtn_disabled p1 = cr_recoBtn_disabled (cui w)" by simp
  with r CClickRecommend show ?thesis by (cases x) simp_all
next
  case (CSettle k r)
  then show ?thesis by (simp add: recommend_settled_def cr_alert_def split: response.split)
qed

lemma recoBtn_crun: "cr_recoBtn_disabled (cui (crun Number es w)) = cr_recoBtn_disabled (cui w)"
  by (induction es arbitrary: w) (simp_all add: recoBtn_cstep)

lemma pbuttons_pstep:
  "pp_predictBtn_disabled (pui (pstep e w)) = pp_predictBtn_disabled (pui w)
   \<and> pp_plotBtn_disabled (pui (pstep e w)) = pp_plotBtn_disabled (pui w)"
proof (cases e)
  case (PSettle k r)
  show ?thesis
  proof (cases "k < length (pinflight w)")
    case True
    then show ?thesis using PSettle
      by (cases "pinflight w ! k")
         (simp_all add: pstates_settled_def pmarkets_settled_def pstates_catch_def
           pmarkets_catch_def history_settled_def
           prediction_settled_def pissue_def showToast_def alert_def renderChart_def
           updateWindowChips_def Let_def split: response.split option.split)
  next
    case False
    then show ?thesis using PSettle by simp
  qed
qed (simp_all add: pissue_def onCommodityChange_def onStateChange_def onPredictClick_def
      onPlotClick_def validateContext_def clearForm_def alert_def updateWindowChips_def
      pstates_catch_def pmarkets_catch_def showToast_def Let_def)

lemma pbuttons_prun:
  "pp_predictBtn_disabled (pui (prun es w)) = pp_predictBtn_disabled (pui w)
   \<and> pp_plotBtn_disabled (pui (prun es w)) = pp_plotBtn_disabled (pui w)"
  by (induction es arbitrary: w) (simp_all add: pbuttons_pstep)

text \<open>
  Claim C5, as amended. On the main page the predict button is disabled exactly while a
  request of its handler is in flight, whatever the events and the responses, so that
  it is enabled again on every path on which the handler ends, and never are two of
  its requests in flight; a click on the disabled button changes nothing. The handlers
  of the crop page and of the price page never change the \<open>disabled\<close> flag of their
  buttons.
\<close>

theorem trigger_control_guard:
  "(guarded w \<longrightarrow>
      guarded (run es w)
    \<and> (predictBtn_disabled (ui (run es w)) \<longleftrightarrow> (\<exists>x\<in>set (inflight (run es w)). is_predict_chain x))
    \<and> predicting (run es w) \<le> 1)
   \<and> (predictBtn_disabled (ui w) \<longrightarrow> step ClickPredict w = w)
   \<and> cr_recoBtn_disabled (cui (crun Number ces cw)) = cr_recoBtn_disabled (cui cw)
   \<and> pp_predictBtn_disabled (pui (prun pes pw)) = pp_predictBtn_disabled (pui pw)
   \<and> pp_plotBtn_disabled (pui (prun pes pw)) = pp_plotBtn_disabled (pui pw)"
proof -
  have "guarded (run es w) \<and>
      (predictBtn_disabled (ui (run es w)) \<longleftrightarrow> (\<exists>x\<in>set (inflight (run es w)). is_predict_chain x))
    \<and> predicting (run es w) \<le> 1" if "guarded w"
  proof -
    have g: "guarded (run es w)" using that by (rule guarded_run)
    then have "predicting (run es w) \<le> 1" by (simp add: guarded_def)
    with g guarded_inflight [OF g] show ?thesis by blast
  qed
  then show ?thesis by (simp add: recoBtn_crun pbuttons_prun)
qed

theorem trigger_control_guard_witness:
  "guarded world0
   \<and> predictBtn_disabled (ui (run [ClickPredict] world0))
   \<and> inflight (run [ClickPredict] world0) = [PredictPost query0]
   \<and> guarded (run [ClickPredict] world0)
   \<and> step ClickPredict (run [ClickPredict] world0) = run [ClickPredict] world0"
proof -
  have g: "guarded world0" by (simp add: guarded_def predicting_def world0_def filled_def)
  have d: "predictBtn_disabled (ui (run [ClickPredict] world0))"
    "inflight (run [ClickPredict] world0) = [PredictPost query0]"
    by (simp_all add: world0_def issue_def predictBtn_click_def validate_def Let_def resetChart_def
        blank_pills_def query0_def example_defs)
  show ?thesis
    using trigger_control_guard [where w = world0 and es = "[ClickPredict]" and Number = Number_digits
        and ces = "[]" and cw = cworld0 and pes = "[]" and pw = pworld0]
      trigger_control_guard [where w = "run [ClickPredict] world0" and es = "[]"
        and Number = Number_digits and ces = "[]" and cw = cworld0 and pes = "[]" and pw = pworld0]
      g d
    by simp
qed

lemma digit_strings:
  "Number_digits (js ''150'') = Fin 150" "Number_digits (js ''40'') = Fin 40"
  "Number_digits (js ''25'') = Fin 25" "Number_digits (js ''80'') = Fin 80"
  "Number_digits (js ''7'') = Fin 7" "Number_digits (js ''200'') = Fin 200"
  "trim (js ''150'') = js ''150''" "trim (js ''40'') = js ''40''" "trim (js ''25'') = js ''25''"
  "trim (js ''80'') = js ''80''" "trim (js ''7'') = js ''7''" "trim (js ''200'') = js ''200''"
  "js ''150'' \<noteq> []" "js ''40'' \<noteq> []" "js ''25'' \<noteq> []" "js ''80'' \<noteq> []" "js ''7'' \<noteq> []"
  "js ''200'' \<noteq> []"
  by (simp_all add: Number_digits_def digits_value_def js_def is_digit_def trim_def is_ws_def)

text \<open>
  The claim as written fails on the crop page and on the price page: after two clicks in
  a row the button is still enabled and two requests are in flight.
\<close>

theorem double_submission_counterexample:
  "length (cinflight (crun Number_digits [CClickRecommend, CClickRecommend] cworld0)) = 2
   \<and> \<not> cr_recoBtn_disabled (cui (crun Number_digits [CClickRecommend] cworld0))
   \<and> pinflight (prun [PClickPredict, PClickPredict] pworld0) =
       [PHistory False True query0, PHistory False True query0]
   \<and> \<not> pp_predictBtn_disabled (pui (prun [PClickPredict] pworld0))"
proof -
  have 1: "length (cinflight (crun Number_digits [CClickRecommend, CClickRecommend] cworld0)) = 2
   \<and> \<not> cr_recoBtn_disabled (cui (crun Number_digits [CClickRecommend] cworld0))"
    by (simp add: cworld0_def cfilled_def onRecommendClick_def read_inputs_def and_then_def
      getNumber_def Let_def digit_strings)
  have 2: "pinflight (prun [PClickPredict, PClickPredict] pworld0) =
       [PHistory False True query0, PHistory False True query0]
   \<and> \<not> pp_predictBtn_disabled (pui (prun [PClickPredict] pworld0))"
    by (simp add: pworld0_def pfilled_def chosen_def onPredictClick_def validateContext_def pissue_def
      context_of_def query0_def wheat_def punjab_def ludhiana_def js_def)
  show ?thesis using 1 2 by blast
qed

end
